theory Spec2Isabelle
  imports Main "HOL-Library.AList" "HOL-Library.Sublist"
begin

section \<open>The plugin manager window of the King Phisher client\<close>

text \<open>
  A shallow embedding of \<^verbatim>\<open>king_phisher/client/windows/plugin_manager.py\<close>: the
  class \<^verbatim>\<open>PluginManagerWindow\<close>, its reconciliation of loaded plugins, catalogs
  and the persisted configuration into the rows of a tree store, and the handlers that
  install, uninstall, enable, disable and reload a plugin.

  The window mutates its configuration, its tree store, the plugin directory and its
  collaborators in place. The model threads one record, \<open>window\<close>, through every
  function and returns it updated, together with what the Python function returns or
  raises. An exception raised half way through a handler leaves the mutations made so
  far in place, so a raising branch returns the window as it is at the raise.

  The collaborators whose code is not part of this file (the plugin registry
  \<^verbatim>\<open>application.plugin_manager\<close>, the catalog manager \<^verbatim>\<open>ClientCatalogManager\<close>,
  the dialogs of \<^verbatim>\<open>gui_utilities\<close>) are parameters: what the handler reads from them
  and what they answer is an argument of the model, and every call the handler makes to
  the registry is appended to the trace \<open>pm_calls\<close>. A call to a collaborator returns
  unless the handler has an \<^verbatim>\<open>except\<close> clause for it; then the exception is one of the
  answers.
\<close>

subsection \<open>Data\<close>

text \<open>The module's constants.\<close>

abbreviation ROW_TYPE_PLUGIN :: string where "ROW_TYPE_PLUGIN \<equiv> ''plugin''"
abbreviation ROW_TYPE_REPOSITORY :: string where "ROW_TYPE_REPOSITORY \<equiv> ''repository''"
abbreviation ROW_TYPE_CATALOG :: string where "ROW_TYPE_CATALOG \<equiv> ''catalog''"
abbreviation LOCAL_REPOSITORY_ID :: string where "LOCAL_REPOSITORY_ID \<equiv> ''local''"
abbreviation LOCAL_REPOSITORY_TITLE :: string where
  "LOCAL_REPOSITORY_TITLE \<equiv> ''[Locally Installed]''"

text \<open>
  An entry of \<^verbatim>\<open>config['plugins.installed']\<close> is either \<^verbatim>\<open>None\<close> (a local
  installation) or the dictionary
  \<^verbatim>\<open>{'catalog_id': ..., 'repo_id': ..., 'plugin_id': ...}\<close>.
\<close>

record install_src =
  catalog_id :: string
  repo_id :: string
  plugin_id :: string

text \<open>
  \<^verbatim>\<open>_named_model\<close>: one row of the tree store. The tuples the window builds carry
  \<^verbatim>\<open>None\<close> in the columns \<^verbatim>\<open>installed\<close>, \<^verbatim>\<open>compatibility\<close> and
  \<^verbatim>\<open>version\<close> of catalog and repository rows, hence the options. Python tests the
  \<^verbatim>\<open>installed\<close> column for truth, and both \<^verbatim>\<open>None\<close> and \<^verbatim>\<open>False\<close> are false.
\<close>

record model_row =
  row_id :: string
  row_installed :: "bool option"
  row_enabled :: bool
  row_title :: string
  row_compatibility :: "string option"
  row_version :: "string option"
  visible_enabled :: bool
  visible_installed :: bool
  sensitive_installed :: bool
  row_type :: string

definition truthy :: "bool option \<Rightarrow> bool" where
  "truthy b = (b = Some True)"

text \<open>
  The \<^verbatim>\<open>Gtk.TreeStore\<close>: a forest of rows. A tree path is the list of child indices
  from the top level down. Rows are kept in the order they were appended (the sort
  order the view applies to titles is not modelled).
\<close>

datatype node = Node (row: model_row) (children: "node list")

type_synonym tree_path = "nat list"

fun get_node :: "node list \<Rightarrow> tree_path \<Rightarrow> node option" where
  "get_node ns [] = None"
| "get_node ns [i] = (if i < length ns then Some (ns ! i) else None)"
| "get_node ns (i # j # p) =
     (if i < length ns then get_node (children (ns ! i)) (j # p) else None)"

text \<open>\<^verbatim>\<open>model_row.parent\<close>: \<^verbatim>\<open>None\<close> for a top-level row.\<close>

definition parent :: "node list \<Rightarrow> tree_path \<Rightarrow> node option" where
  "parent ns p = (if length p < 2 then None else get_node ns (butlast p))"

text \<open>Writing the columns of the row at a path (\<^verbatim>\<open>_set_model_item\<close>).\<close>

fun update_node :: "(model_row \<Rightarrow> model_row) \<Rightarrow> node list \<Rightarrow> tree_path \<Rightarrow> node list" where
  "update_node f ns [] = ns"
| "update_node f ns [i] =
     (if i < length ns then ns[i := Node (f (row (ns ! i))) (children (ns ! i))] else ns)"
| "update_node f ns (i # j # p) =
     (if i < length ns
      then ns[i := Node (row (ns ! i)) (update_node f (children (ns ! i)) (j # p))]
      else ns)"

text \<open>\<^verbatim>\<open>del self._model[path]\<close>: the row and its subtree leave the store.\<close>

fun remove_node :: "node list \<Rightarrow> tree_path \<Rightarrow> node list" where
  "remove_node ns [] = ns"
| "remove_node ns [i] = take i ns @ drop (Suc i) ns"
| "remove_node ns (i # j # p) =
     (if i < length ns
      then ns[i := Node (row (ns ! i)) (remove_node (children (ns ! i)) (j # p))]
      else ns)"

text \<open>Exceptions the handlers can raise or let through.\<close>

datatype py_error = ValueError | KeyError | IndexError | TypeError | AttributeError

datatype 'a result = Returned 'a | Raised py_error

text \<open>Calls to the plugin registry, in the order they are made.\<close>

datatype pm_call =
  PmEnable string | PmDisable string | PmUnload string | PmLoad string | PmLoadAll

text \<open>What the user gets to see, and what is logged, in the order it is emitted.\<close>

datatype ui_event =
  StatusBar string
  | DialogError string string
  | DialogYesNo string string
  | LogWarning string
  | LogInfo string
  | SetInfo string

text \<open>
  The window and what it owns. The dictionary \<^verbatim>\<open>config['plugins.installed']\<close> is
  an association list in the dictionary's iteration order: \<open>map_of\<close> looks a key
  up, \<open>AList.update\<close> stores a value (in place for a key that is there, at the end
  for a new one) and \<open>AList.delete\<close> is \<^verbatim>\<open>del\<close>. \<open>files\<close> lists the regular files below
  \<^verbatim>\<open>plugin_path\<close>, each as its path components: a package is
  \<^verbatim>\<open>[id, '__init__.py']\<close> and a single-file plugin is \<^verbatim>\<open>[id + '.py']\<close>.
  \<open>module_errors\<close> keeps the text of the captured exception.
\<close>

record window =
  plugins_installed :: "(string \<times> install_src option) list"
  plugins_enabled :: "string list"
  module_errors :: "string \<rightharpoonup> string"
  model :: "node list"
  files :: "string list list"
  pm_calls :: "pm_call list"
  ui :: "ui_event list"

text \<open>
  What a handler reads from the plugin registry: \<^verbatim>\<open>loaded_plugins\<close> (a dictionary from
  name to plugin class, in iteration order) and \<^verbatim>\<open>enabled_plugins\<close>.
\<close>

record plugin_class =
  plugin_name :: string
  plugin_title :: string
  plugin_version :: string
  is_compatible :: bool

record plugin_manager =
  loaded_plugins :: "(string \<times> plugin_class) list"
  enabled_plugins :: "string list"

subsection \<open>Disabling and uninstalling\<close>

definition emit :: "ui_event \<Rightarrow> window \<Rightarrow> window" where
  "emit e w = w\<lparr>ui := ui w @ [e]\<rparr>"

definition call_pm :: "pm_call \<Rightarrow> window \<Rightarrow> window" where
  "call_pm c w = w\<lparr>pm_calls := pm_calls w @ [c]\<rparr>"

definition set_model_item :: "tree_path \<Rightarrow> (model_row \<Rightarrow> model_row) \<Rightarrow> window \<Rightarrow> window" where
  "set_model_item path f w = w\<lparr>model := update_node f (model w) path\<rparr>"

text \<open>
  \<^verbatim>\<open>_disable_plugin(path, is_path)\<close>. With \<^verbatim>\<open>is_path=False\<close> the argument is the
  row object itself, and writing its \<^verbatim>\<open>enabled\<close> column writes the store at the
  row's path; the two forms are one here. \<^verbatim>\<open>self._model[path]\<close> raises
  \<^verbatim>\<open>IndexError\<close> when there is no such row, and \<^verbatim>\<open>list.remove\<close> raises
  \<^verbatim>\<open>ValueError\<close> when the id is not in the list (the registry has been told to
  disable by then); otherwise it removes the first occurrence.
\<close>

definition disable_plugin :: "window \<Rightarrow> tree_path \<Rightarrow> unit result \<times> window" where
  "disable_plugin w path =
     (case get_node (model w) path of
        None \<Rightarrow> (Raised IndexError, w)
      | Some n \<Rightarrow>
          let named_row = row n;
              w1 = call_pm (PmDisable (row_id named_row)) w
          in if row_id named_row \<notin> set (plugins_enabled w1) then (Raised ValueError, w1)
             else (Returned (),
                   set_model_item path (\<lambda>r. r\<lparr>row_enabled := False\<rparr>)
                     (w1\<lparr>plugins_enabled := remove1 (row_id named_row) (plugins_enabled w1)\<rparr>)))"

text \<open>
  \<^verbatim>\<open>shutil.rmtree\<close> of the package directory removes every file below it;
  \<^verbatim>\<open>os.remove\<close> removes the single file.
\<close>

definition rmtree :: "string \<Rightarrow> string list list \<Rightarrow> string list list" where
  "rmtree d fs = filter (\<lambda>f. case f of [] \<Rightarrow> True | c # _ \<Rightarrow> c \<noteq> d) fs"

text \<open>
  \<^verbatim>\<open>_uninstall_plugin(model_path)\<close>. \<^verbatim>\<open>del config['plugins.installed'][plugin_id]\<close>
  raises \<^verbatim>\<open>KeyError\<close> when the id has no entry.
\<close>

definition uninstall_plugin :: "window \<Rightarrow> tree_path \<Rightarrow> bool result \<times> window" where
  "uninstall_plugin w model_path =
     (case get_node (model w) model_path of
        None \<Rightarrow> (Raised IndexError, w)
      | Some model_row \<Rightarrow>
          let pid = row_id (row model_row) in
          if \<not> ([pid, ''__init__.py''] \<in> set (files w) \<or> [pid @ ''.py''] \<in> set (files w))
          then (Returned False,
                emit (LogWarning (''failed to find plugin '' @ pid @ '' on disk for removal'')) w)
          else
            let w1 = (if [pid, ''__init__.py''] \<in> set (files w)
                      then w\<lparr>files := rmtree pid (files w)\<rparr>
                      else w\<lparr>files := removeAll [pid @ ''.py''] (files w)\<rparr>);
                w2 = call_pm (PmUnload pid) w1
            in if map_of (plugins_installed w2) pid = None then (Raised KeyError, w2)
               else
                 let w3 = w2\<lparr>plugins_installed := AList.delete pid (plugins_installed w2)\<rparr>;
                     w4 = (case parent (model w3) model_path of
                             Some pr \<Rightarrow>
                               if row_id (row pr) = LOCAL_REPOSITORY_ID
                               then w3\<lparr>model := remove_node (model w3) model_path\<rparr>
                               else set_model_item model_path (\<lambda>r. r\<lparr>row_installed := Some False\<rparr>) w3
                           | None \<Rightarrow>
                               set_model_item model_path (\<lambda>r. r\<lparr>row_installed := Some False\<rparr>) w3)
                 in (Returned True,
                     emit (LogInfo (''successfully uninstalled plugin '' @ pid)) w4))"

subsection \<open>Replacing an installation from another source\<close>

fun first_index :: "('a \<Rightarrow> bool) \<Rightarrow> 'a list \<Rightarrow> nat option" where
  "first_index P [] = None"
| "first_index P (x # xs) = (if P x then Some 0 else map_option Suc (first_index P xs))"

text \<open>
  The first loop of \<^verbatim>\<open>_remove_matching_plugin\<close>: the first catalog row whose id is the
  source's catalog id, and below it the first repository row with the source's
  repository id; for a local installation (\<^verbatim>\<open>plugin_src is None\<close>) the first catalog
  row with the id \<^verbatim>\<open>'local'\<close>, which stands for its own repository. The loop stops at
  the first catalog row that matches, whether or not the repository is found below it.
\<close>

definition find_repo_model :: "node list \<Rightarrow> install_src option \<Rightarrow> (tree_path \<times> node) option" where
  "find_repo_model ns plugin_src =
     (case plugin_src of
        Some src \<Rightarrow>
          (case first_index (\<lambda>c. row_id (row c) = catalog_id src) ns of
             None \<Rightarrow> None
           | Some i \<Rightarrow>
               (case first_index (\<lambda>rm. row_id (row rm) = repo_id src) (children (ns ! i)) of
                  None \<Rightarrow> None
                | Some j \<Rightarrow> Some ([i, j], children (ns ! i) ! j)))
      | None \<Rightarrow>
          (case first_index (\<lambda>c. row_id (row c) = LOCAL_REPOSITORY_ID) ns of
             None \<Rightarrow> None
           | Some i \<Rightarrow> Some ([i], ns ! i)))"

text \<open>
  The second loop: the first row below the repository row that carries the plugin's id.
  The result is the row's path and the row.
\<close>

definition find_matching_plugin ::
  "node list \<Rightarrow> string \<Rightarrow> install_src option \<Rightarrow> (tree_path \<times> node) option" where
  "find_matching_plugin ns pid plugin_src =
     (case find_repo_model ns plugin_src of
        None \<Rightarrow> None
      | Some (repo_path, repo_model) \<Rightarrow>
          (case first_index (\<lambda>pm. row_id (row pm) = pid) (children repo_model) of
             None \<Rightarrow> None
           | Some k \<Rightarrow> Some (repo_path @ [k], children repo_model ! k)))"

text \<open>
  \<^verbatim>\<open>_remove_matching_plugin(path, plugin_src)\<close>. What \<^verbatim>\<open>_uninstall_plugin\<close> returns
  is dropped: once a row with the plugin's id is found the function returns
  \<^verbatim>\<open>True\<close>.
\<close>

definition remove_matching_plugin ::
  "window \<Rightarrow> tree_path \<Rightarrow> install_src option \<Rightarrow> bool result \<times> window" where
  "remove_matching_plugin w path plugin_src =
     (case get_node (model w) path of
        None \<Rightarrow> (Raised IndexError, w)
      | Some n \<Rightarrow>
          (case find_matching_plugin (model w) (row_id (row n)) plugin_src of
             None \<Rightarrow> (Returned False, w)
           | Some (plugin_model_path, plugin_model) \<Rightarrow>
               (case (if row_enabled (row plugin_model)
                      then disable_plugin w plugin_model_path
                      else (Returned (), w)) of
                  (Raised e, w1) \<Rightarrow> (Raised e, w1)
                | (Returned _, w1) \<Rightarrow>
                    (case uninstall_plugin w1 plugin_model_path of
                       (Raised e, w2) \<Rightarrow> (Raised e, w2)
                     | (Returned _, w2) \<Rightarrow> (Returned True, w2)))))"

subsection \<open>The install toggle\<close>

text \<open>
  \<^verbatim>\<open>_get_plugin_model_parents\<close>: the repository row and the catalog row above a
  plugin row. \<^verbatim>\<open>self._named_model(*None)\<close> raises \<^verbatim>\<open>TypeError\<close> when the row has no
  parent or no grandparent.
\<close>

definition get_plugin_model_parents ::
  "node list \<Rightarrow> tree_path \<Rightarrow> (model_row \<times> model_row) result" where
  "get_plugin_model_parents ns p =
     (case parent ns p of
        None \<Rightarrow> Raised TypeError
      | Some rp \<Rightarrow>
          (case parent ns (butlast p) of
             None \<Rightarrow> Raised TypeError
           | Some cp \<Rightarrow> Returned (row rp, row cp)))"

text \<open>
  What the collaborators answer during one run of the install toggle: the user's answer
  to the one yes/no dialog the handler can show, what
  \<^verbatim>\<open>catalog_plugins.install_plugin\<close> does (it returns, having written the given files
  below \<^verbatim>\<open>plugin_path\<close>, or raises \<^verbatim>\<open>requests.exceptions.ConnectionError\<close>, or raises
  something else), the version \<^verbatim>\<open>get_collection(...)[id]['version']\<close> (\<open>None\<close> when
  that lookup raises \<^verbatim>\<open>KeyError\<close>), and the load errors that \<^verbatim>\<open>load_all\<close> reports to
  \<^verbatim>\<open>_on_plugin_load_error\<close>.
\<close>

datatype install_outcome = InstallOk "string list list" | InstallConnectionError | InstallException

record answers =
  confirm :: bool
  install_result :: install_outcome
  collection_version :: "string option"
  load_errors :: "(string \<times> string) list"

text \<open>\<^verbatim>\<open>_on_plugin_load_error(name, error)\<close>.\<close>

definition on_plugin_load_error :: "string \<Rightarrow> string \<Rightarrow> window \<Rightarrow> window" where
  "on_plugin_load_error name error w = w\<lparr>module_errors := (module_errors w)(name \<mapsto> error)\<rparr>"

text \<open>The branch of \<^verbatim>\<open>signal_renderer_toggled_install\<close> for a row that is installed.\<close>

definition toggled_uninstall :: "answers \<Rightarrow> window \<Rightarrow> tree_path \<Rightarrow> model_row \<Rightarrow> unit result \<times> window" where
  "toggled_uninstall a w path named_row =
     (let w1 = emit (StatusBar (''Uninstalling plugin '' @ row_id named_row @ ''...'')) w;
          finish = (\<lambda>w3. case uninstall_plugin w3 path of
                      (Raised e, w4) \<Rightarrow> (Raised e, w4)
                    | (Returned _, w4) \<Rightarrow>
                        (Returned (),
                         emit (StatusBar (''Uninstalling plugin '' @ row_id named_row @ '' completed.'')) w4))
      in if row_enabled named_row
         then
           let w2 = emit (DialogYesNo ''Plugin is Enabled''
                            ''This will disable the plugin, do you want to continue?'') w1
           in if \<not> confirm a then (Returned (), w2)
              else (case disable_plugin w2 path of
                      (Raised e, w3) \<Rightarrow> (Raised e, w3)
                    | (Returned _, w3) \<Rightarrow> finish w3)
         else finish w1)"

text \<open>
  The last part of \<^verbatim>\<open>signal_renderer_toggled_install\<close>, from the status bar message
  \<^verbatim>\<open>Installing plugin ...\<close> on: the download, and the bookkeeping when it succeeds.
\<close>

definition toggled_install_new ::
  "answers \<Rightarrow> window \<Rightarrow> tree_path \<Rightarrow> model_row \<Rightarrow> model_row \<Rightarrow> model_row \<Rightarrow> unit result \<times> window" where
  "toggled_install_new a w path named_row repo_model catalog_model =
     (let w1 = emit (StatusBar (''Installing plugin '' @ row_title named_row @ ''...'')) w
      in (case install_result a of
           InstallConnectionError \<Rightarrow>
             (Returned (),
              emit (DialogError ''Failed To Install''
                      (''Failed to download '' @ row_id named_row @
                       '' plugin, check your internet connection.''))
                (emit (LogWarning (''failed to download plugin '' @ row_id named_row)) w1))
         | InstallException \<Rightarrow>
             (Returned (),
              emit (StatusBar (''Installing plugin '' @ row_title named_row @ '' failed.''))
                (emit (DialogError ''Failed To Install''
                         (''Failed to install '' @ row_id named_row @ '' plugin.''))
                   (emit (LogWarning (''failed to install plugin '' @ row_id named_row)) w1)))
         | InstallOk written \<Rightarrow>
             let w2 = w1\<lparr>files := files w1 @ written\<rparr>;
                 w3 = w2\<lparr>plugins_installed :=
                          AList.update (row_id named_row)
                            (Some \<lparr>catalog_id = row_id catalog_model, repo_id = row_id repo_model,
                                   plugin_id = row_id named_row\<rparr>)
                            (plugins_installed w2)\<rparr>
             in if get_node (model w3) path = None then (Raised IndexError, w3)
                else
                  let w4 = set_model_item path (\<lambda>r. r\<lparr>row_installed := Some True\<rparr>) w3
                  in (case collection_version a of
                       None \<Rightarrow> (Raised KeyError, w4)
                     | Some v \<Rightarrow>
                         let w5 = set_model_item path (\<lambda>r. r\<lparr>row_version := Some v\<rparr>) w4;
                             w6 = emit (LogInfo (''installed plugin '' @ row_id named_row @
                                    '' from catalog:'' @ row_id catalog_model @
                                    '', repository:'' @ row_id repo_model)) w5;
                             w7 = emit (StatusBar (''Installing plugin '' @ row_title named_row @
                                    '' completed.'')) w6;
                             w8 = call_pm PmLoadAll w7
                         in (Returned (),
                             fold (\<lambda>(name, error). on_plugin_load_error name error)
                               (load_errors a) w8))))"

text \<open>
  \<^verbatim>\<open>signal_renderer_toggled_install(_, path)\<close>. A row that is installed is uninstalled.
  Otherwise, when the configuration has an entry for the id that is not this catalog
  and repository (an entry \<^verbatim>\<open>None\<close> is not), the user is asked and the installed copy
  is removed first; then the plugin is installed.
\<close>

definition signal_renderer_toggled_install :: "answers \<Rightarrow> window \<Rightarrow> tree_path \<Rightarrow> unit result \<times> window" where
  "signal_renderer_toggled_install a w path =
     (case get_node (model w) path of
        None \<Rightarrow> (Raised IndexError, w)
      | Some n \<Rightarrow>
          (case get_plugin_model_parents (model w) path of
             Raised e \<Rightarrow> (Raised e, w)
           | Returned (repo_model, catalog_model) \<Rightarrow>
               let named_row = row n in
               if truthy (row_installed named_row) then toggled_uninstall a w path named_row
               else
                 (case map_of (plugins_installed w) (row_id named_row) of
                    None \<Rightarrow> toggled_install_new a w path named_row repo_model catalog_model
                  | Some plugin_src \<Rightarrow>
                      if plugin_src \<noteq> Some \<lparr>catalog_id = row_id catalog_model,
                                             repo_id = row_id repo_model,
                                             plugin_id = row_id named_row\<rparr>
                      then
                        let w1 = emit (DialogYesNo ''Plugin installed from another source''
                                   (''A plugin with this name is already installed from another'' @
                                    [CHR 0x0A] @
                                    ''repository. Do you want to replace it with this one?'')) w
                        in if \<not> confirm a then (Returned (), w1)
                           else
                             (case remove_matching_plugin w1 path plugin_src of
                                (Raised e, w2) \<Rightarrow> (Raised e, w2)
                              | (Returned False, w2) \<Rightarrow>
                                  (Returned (),
                                   emit (LogWarning (''failed to uninstall plugin '' @
                                           row_id named_row)) w2)
                              | (Returned True, w2) \<Rightarrow>
                                  toggled_install_new a w2 path named_row repo_model catalog_model)
                      else toggled_install_new a w path named_row repo_model catalog_model)))"

subsection \<open>The enable toggle\<close>

text \<open>
  \<^verbatim>\<open>signal_renderer_toggled_enable(_, path)\<close>. \<open>pm\<close> is the registry as the handler
  finds it and \<open>accepted\<close> is whether \<^verbatim>\<open>pm.enable\<close> returns something true.
\<close>

definition signal_renderer_toggled_enable ::
  "plugin_manager \<Rightarrow> bool \<Rightarrow> window \<Rightarrow> tree_path \<Rightarrow> unit result \<times> window" where
  "signal_renderer_toggled_enable pm accepted w path =
     (case get_node (model w) path of
        None \<Rightarrow> (Raised IndexError, w)
      | Some n \<Rightarrow>
          let named_row = row n in
          if row_type named_row \<noteq> ROW_TYPE_PLUGIN then (Returned (), w)
          else
            (case map_of (loaded_plugins pm) (row_id named_row) of
               None \<Rightarrow> (Returned (), w)
             | Some klass \<Rightarrow>
                 if module_errors w (row_id named_row) \<noteq> None
                 then (Returned (),
                       emit (DialogError ''Can Not Enable Plugin''
                               ''Can not enable a plugin which failed to load.'') w)
                 else if row_enabled named_row then disable_plugin w path
                 else if \<not> is_compatible klass
                 then (Returned (),
                       emit (DialogError ''Incompatible Plugin'' ''This plugin is not compatible.'') w)
                 else
                   let w1 = call_pm (PmEnable (row_id named_row)) w
                   in if \<not> accepted then (Returned (), w1)
                      else
                        let w2 = set_model_item path (\<lambda>r. r\<lparr>row_enabled := True\<rparr>) w1
                        in (Returned (),
                            w2\<lparr>plugins_enabled := plugins_enabled w2 @ [row_id named_row]\<rparr>)))"

subsection \<open>Reloading a plugin\<close>

text \<open>What \<^verbatim>\<open>pm.load(name, reload_module=True)\<close> does: it returns the class or raises.\<close>

datatype load_outcome = Loaded plugin_class | LoadFailed string

text \<open>
  \<^verbatim>\<open>_reload_plugin(named_row, model_row, pm, tree_iter, selected_plugin)\<close>. The row
  object \<^verbatim>\<open>model_row\<close> is the row at \<^verbatim>\<open>tree_iter\<close>; \<^verbatim>\<open>_set_info\<close> only redraws the
  information pane and is recorded as the event \<open>SetInfo\<close>.
\<close>

definition reload_plugin ::
  "plugin_manager \<Rightarrow> load_outcome \<Rightarrow> window \<Rightarrow> model_row \<Rightarrow> tree_path \<Rightarrow> string option
     \<Rightarrow> unit result \<times> window" where
  "reload_plugin pm load w named_row tree_iter selected_plugin =
     (let enabled = (row_id named_row \<in> set (enabled_plugins pm));
          w1 = call_pm (PmUnload (row_id named_row)) w;
          w2 = call_pm (PmLoad (row_id named_row)) w1
      in (case load of
           LoadFailed error \<Rightarrow>
             let w3 = on_plugin_load_error (row_id named_row) error w2;
                 w4 = (if Some (row_id named_row) = selected_plugin
                       then emit (SetInfo (row_id named_row)) w3 else w3)
             in if get_node (model w4) tree_iter = None then (Raised IndexError, w4)
                else (Returned (),
                      set_model_item tree_iter
                        (\<lambda>r. r\<lparr>row_title := row_id named_row @ '' (Reload Failed)''\<rparr>) w4)
         | Loaded klass \<Rightarrow>
             let w3 = w2\<lparr>module_errors := (module_errors w2)(row_id named_row := None)\<rparr>
             in if get_node (model w3) tree_iter = None then (Raised IndexError, w3)
                else
                  let w4 = set_model_item tree_iter (\<lambda>r. r\<lparr>row_title := plugin_title klass\<rparr>) w3;
                      w5 = set_model_item tree_iter
                             (\<lambda>r. r\<lparr>row_compatibility :=
                                      Some (if is_compatible klass then ''Yes'' else ''No'')\<rparr>) w4;
                      w6 = set_model_item tree_iter
                             (\<lambda>r. r\<lparr>row_version := Some (plugin_version klass)\<rparr>) w5;
                      w7 = (if Some (row_id named_row) = selected_plugin
                            then emit (SetInfo (row_id named_row)) w6 else w6)
                  in (Returned (),
                      if enabled then call_pm (PmEnable (row_id named_row)) w7 else w7)))"

subsection \<open>Reconciliation: building the rows\<close>

text \<open>
  What the window reads from the catalog manager \<^verbatim>\<open>self.catalog_plugins\<close>:
  \<^verbatim>\<open>catalog_ids()\<close>, \<^verbatim>\<open>get_repositories(catalog_id)\<close>, the values of the dictionary
  \<^verbatim>\<open>get_collection(catalog_id, repo_id)\<close> in iteration order (empty when the call
  returns nothing), \<^verbatim>\<open>is_compatible(catalog_id, repo_id, plugin_name)\<close>, the ids that
  have an entry in \<^verbatim>\<open>catalogs\<close>, and the cache: its catalog ids in iteration order,
  each with the repositories of the cached catalog.
\<close>

record repository =
  repository_id :: string
  repository_title :: string

record plugin_info =
  info_name :: string
  info_title :: string
  info_version :: string

record catalog_manager =
  catalog_ids :: "string list"
  get_repositories :: "string \<Rightarrow> repository list"
  get_collection :: "string \<Rightarrow> string \<Rightarrow> plugin_info list"
  cm_is_compatible :: "string \<Rightarrow> string \<Rightarrow> string \<Rightarrow> bool"
  catalogs :: "string list"
  cache :: "(string \<times> repository list) list"

text \<open>\<^verbatim>\<open>config['plugins.installed'].get(name)\<close>: \<^verbatim>\<open>None\<close> for a missing key too.\<close>

definition installed_get :: "window \<Rightarrow> string \<Rightarrow> install_src option" where
  "installed_get w name = (case map_of (plugins_installed w) name of None \<Rightarrow> None | Some v \<Rightarrow> v)"

definition yes_no :: "bool \<Rightarrow> string" where
  "yes_no b = (if b then ''Yes'' else ''No'')"

text \<open>
  \<^verbatim>\<open>_add_plugins_to_tree(catalog_id, repo, store, parent, plugin_list)\<close>: the rows it
  appends below the repository row \<^verbatim>\<open>parent\<close>, one for each plugin of the collection.
\<close>

definition add_plugins_to_tree ::
  "catalog_manager \<Rightarrow> window \<Rightarrow> string \<Rightarrow> repository \<Rightarrow> plugin_info list \<Rightarrow> model_row list" where
  "add_plugins_to_tree cm w cid repo plugin_list =
     map (\<lambda>info.
            let plugin_name = info_name info;
                install_src = installed_get w plugin_name;
                installed = (case install_src of
                               None \<Rightarrow> False
                             | Some src \<Rightarrow> repository_id repo = repo_id src \<and> cid = catalog_id src);
                enabled = (installed \<and> plugin_name \<in> set (plugins_enabled w))
            in \<lparr>row_id = plugin_name,
                row_installed = Some installed,
                row_enabled = enabled,
                row_title = info_title info,
                row_compatibility =
                  Some (yes_no (cm_is_compatible cm cid (repository_id repo) plugin_name)),
                row_version = Some (info_version info),
                visible_enabled = True,
                visible_installed = True,
                sensitive_installed = cm_is_compatible cm cid (repository_id repo) plugin_name,
                row_type = ROW_TYPE_PLUGIN\<rparr>)
         plugin_list"

definition leaf :: "model_row \<Rightarrow> node" where
  "leaf r = Node r []"

text \<open>\<^verbatim>\<open>_add_catalog_to_tree(catalog_id, store)\<close>: the catalog row and what hangs below it.\<close>

definition add_catalog_to_tree :: "catalog_manager \<Rightarrow> window \<Rightarrow> string \<Rightarrow> node" where
  "add_catalog_to_tree cm w cid =
     Node \<lparr>row_id = cid, row_installed = None, row_enabled = True, row_title = cid,
           row_compatibility = None, row_version = None, visible_enabled = False,
           visible_installed = False, sensitive_installed = False, row_type = ROW_TYPE_CATALOG\<rparr>
       (map (\<lambda>repo.
               Node \<lparr>row_id = repository_id repo, row_installed = None, row_enabled = True,
                     row_title = repository_title repo, row_compatibility = None,
                     row_version = None, visible_enabled = False, visible_installed = False,
                     sensitive_installed = False, row_type = ROW_TYPE_REPOSITORY\<rparr>
                 (if get_collection cm cid (repository_id repo) = [] then []
                  else map leaf (add_plugins_to_tree cm w cid repo
                                   (get_collection cm cid (repository_id repo)))))
            (get_repositories cm cid))"

text \<open>
  \<^verbatim>\<open>_add_plugins_offline(catalog_id, repo_id, store, parent)\<close>: the rows for the plugins
  that the configuration says were installed from a catalog that is only in the cache.

  The registry's membership test and its indexing by name
  (\<^verbatim>\<open>plugin_name in plugin_manager\<close>, \<^verbatim>\<open>plugin_manager[plugin_name]\<close>) are read as
  lookups in its \<^verbatim>\<open>loaded_plugins\<close>; they only decide which rows are shown and with
  what title, verdict and version.
\<close>

definition add_plugins_offline ::
  "plugin_manager \<Rightarrow> window \<Rightarrow> string \<Rightarrow> string \<Rightarrow> model_row list" where
  "add_plugins_offline pm w cid rid =
     concat (map (\<lambda>(plugin_name, plugin_src).
                    case plugin_src of
                      None \<Rightarrow> []
                    | Some src \<Rightarrow>
                        (case map_of (loaded_plugins pm) plugin_name of
                           None \<Rightarrow> []
                         | Some klass \<Rightarrow>
                             if catalog_id src \<noteq> cid then []
                             else if repo_id src \<noteq> rid then []
                             else [\<lparr>row_id = plugin_name,
                                    row_installed = Some True,
                                    row_enabled = (plugin_name \<in> set (plugins_enabled w)),
                                    row_title = plugin_title klass,
                                    row_compatibility = Some (yes_no (is_compatible klass)),
                                    row_version = Some (plugin_version klass),
                                    visible_enabled = True,
                                    visible_installed = True,
                                    sensitive_installed = False,
                                    row_type = ROW_TYPE_PLUGIN\<rparr>]))
                 (plugins_installed w))"

text \<open>
  The first loop of \<^verbatim>\<open>_load_plugins\<close>, over \<^verbatim>\<open>pm.loaded_plugins.items()\<close>: a plugin
  whose entry in \<^verbatim>\<open>config['plugins.installed']\<close> is a source is skipped; every other
  plugin gets the entry \<^verbatim>\<open>None\<close> and a row below the local catalog. The function
  returns the dictionary as the loop leaves it and the rows.
\<close>

fun local_rows ::
  "plugin_manager \<Rightarrow> (string \<times> plugin_class) list \<Rightarrow> (string \<times> install_src option) list
     \<Rightarrow> (string \<times> install_src option) list \<times> model_row list" where
  "local_rows pm [] inst = (inst, [])"
| "local_rows pm ((name, plugin) # rest) inst =
     (case map_of inst name of
        Some (Some src) \<Rightarrow> local_rows pm rest inst
      | _ \<Rightarrow>
          (case local_rows pm rest (AList.update name None inst) of
             (inst', rows) \<Rightarrow>
               (inst',
                \<lparr>row_id = plugin_name plugin,
                 row_installed = Some True,
                 row_enabled = (plugin_name plugin \<in> set (enabled_plugins pm)),
                 row_title = plugin_title plugin,
                 row_compatibility = Some (yes_no (is_compatible plugin)),
                 row_version = Some (plugin_version plugin),
                 visible_enabled = True,
                 visible_installed = True,
                 sensitive_installed = False,
                 row_type = ROW_TYPE_PLUGIN\<rparr> # rows)))"

text \<open>The keys of a dictionary filled in the given order: each key where it first came.\<close>

definition dict_keys :: "('k \<times> 'v) list \<Rightarrow> 'k list" where
  "dict_keys kvs = rev (remdups (rev (map fst kvs)))"

definition load_failed_row :: "string \<Rightarrow> model_row" where
  "load_failed_row name =
     \<lparr>row_id = name, row_installed = Some True, row_enabled = False,
      row_title = name @ '' (Load Failed)'', row_compatibility = Some ''No'',
      row_version = Some ''Unknown'', visible_enabled = True, visible_installed = True,
      sensitive_installed = False, row_type = ROW_TYPE_PLUGIN\<rparr>"

text \<open>The rows for a catalog that is in the cache and not in \<^verbatim>\<open>catalogs\<close>.\<close>

definition offline_catalog ::
  "plugin_manager \<Rightarrow> window \<Rightarrow> string \<Rightarrow> repository list \<Rightarrow> node" where
  "offline_catalog pm w cid repos =
     Node \<lparr>row_id = cid, row_installed = None, row_enabled = True, row_title = cid,
           row_compatibility = None, row_version = None, visible_enabled = False,
           visible_installed = False, sensitive_installed = False, row_type = ROW_TYPE_CATALOG\<rparr>
       (map (\<lambda>repo.
               Node \<lparr>row_id = repository_id repo, row_installed = None, row_enabled = True,
                     row_title = repository_title repo, row_compatibility = None,
                     row_version = None, visible_enabled = False, visible_installed = False,
                     sensitive_installed = False, row_type = ROW_TYPE_REPOSITORY\<rparr>
                 (map leaf (add_plugins_offline pm w cid (repository_id repo))))
            repos)"

text \<open>
  \<^verbatim>\<open>_load_plugins()\<close>. \<open>pm\<close> is the registry after \<^verbatim>\<open>pm.load_all\<close> and \<open>errors\<close>
  are the load errors it reported, in order. The store is cleared and filled again: the
  local catalog with the local rows and the rows of the plugins that failed to load,
  then the catalogs of the catalog manager, then the cached catalogs that are not
  loaded. The rows that the source hands to the main loop (\<^verbatim>\<open>glib_idle_add_once\<close>)
  are appended in the order they were handed over.
\<close>

definition load_plugins ::
  "plugin_manager \<Rightarrow> (string \<times> string) list \<Rightarrow> catalog_manager \<Rightarrow> window \<Rightarrow> window" where
  "load_plugins pm errors cm w =
     (let w1 = emit (StatusBar ''Loading plugins...'') w;
          w2 = call_pm PmLoadAll (w1\<lparr>model := [], module_errors := Map.empty\<rparr>);
          w3 = fold (\<lambda>(name, error). on_plugin_load_error name error) errors w2;
          (inst, models) = local_rows pm (loaded_plugins pm) (plugins_installed w3);
          w4 = w3\<lparr>plugins_installed := inst\<rparr>;
          local_catalog =
            Node \<lparr>row_id = LOCAL_REPOSITORY_ID, row_installed = None, row_enabled = True,
                  row_title = LOCAL_REPOSITORY_TITLE, row_compatibility = None,
                  row_version = None, visible_enabled = False, visible_installed = False,
                  sensitive_installed = False, row_type = ROW_TYPE_CATALOG\<rparr>
              (map leaf (models @ map load_failed_row (dict_keys errors)));
          live = map (add_catalog_to_tree cm w4) (catalog_ids cm);
          offline = map (\<lambda>(cid, repos). offline_catalog pm w4 cid repos)
                      (filter (\<lambda>(cid, repos). cid \<notin> set (catalogs cm)) (cache cm));
          w5 = w4\<lparr>model := local_catalog # live @ offline\<rparr>
      in emit (StatusBar ''Loading completed'') w5)"

subsection \<open>Loading the catalogs\<close>








subsection \<open>Reading the rows back\<close>



subsection \<open>The persisted configuration\<close>


text \<open>Both persisted values are as they were.\<close>

definition config_kept :: "window \<Rightarrow> window \<Rightarrow> bool" where
  "config_kept w w' =
     (plugins_installed w' = plugins_installed w \<and> plugins_enabled w' = plugins_enabled w)"


subsection \<open>Example states\<close>

text \<open>
  One plugin, \<open>foo\<close>, offered by the repository \<open>B\<close> of catalog \<open>A\<close> and by the
  repository \<open>D\<close> of catalog \<open>C\<close>.
\<close>

definition foo_class :: plugin_class where
  "foo_class = \<lparr>plugin_name = ''foo'', plugin_title = ''Foo'', plugin_version = ''1.0'',
                 is_compatible = True\<rparr>"

definition example_cm :: catalog_manager where
  "example_cm =
     \<lparr>catalog_ids = [''A'', ''C''],
      get_repositories =
        (\<lambda>c. if c = ''A'' then [\<lparr>repository_id = ''B'', repository_title = ''B''\<rparr>]
             else if c = ''C'' then [\<lparr>repository_id = ''D'', repository_title = ''D''\<rparr>]
             else []),
      get_collection =
        (\<lambda>c r. if (c = ''A'' \<and> r = ''B'') \<or> (c = ''C'' \<and> r = ''D'')
               then [\<lparr>info_name = ''foo'', info_title = ''Foo'', info_version = ''1.0''\<rparr>]
               else []),
      cm_is_compatible = (\<lambda>c r p. True),
      catalogs = [''A'', ''C''],
      cache = []\<rparr>"

definition blank_window :: "(string \<times> install_src option) list \<Rightarrow> string list \<Rightarrow> window" where
  "blank_window inst en =
     \<lparr>plugins_installed = inst, plugins_enabled = en, module_errors = Map.empty, model = [],
      files = [[''foo.py'']], pm_calls = [], ui = []\<rparr>"

definition src_AB :: install_src where
  "src_AB = \<lparr>catalog_id = ''A'', repo_id = ''B'', plugin_id = ''foo''\<rparr>"

definition example_pm :: "string list \<Rightarrow> plugin_manager" where
  "example_pm en = \<lparr>loaded_plugins = [(''foo'', foo_class)], enabled_plugins = en\<rparr>"

text \<open>
  The window after reconciliation when \<open>foo\<close> was installed from \<open>A\<close>/\<open>B\<close>, loads, and
  the enabled list is \<open>en\<close>: the row of \<open>foo\<close> below \<open>A\<close>/\<open>B\<close> is at the path
  \<open>[1, 0, 0]\<close> and the one below \<open>C\<close>/\<open>D\<close> at \<open>[2, 0, 0]\<close>.
\<close>

definition window_AB :: "string list \<Rightarrow> window" where
  "window_AB en =
     load_plugins (example_pm en) [] example_cm (blank_window [(''foo'', Some src_AB)] en)"


definition catalog_row :: "string \<Rightarrow> string \<Rightarrow> model_row" where
  "catalog_row i t =
     \<lparr>row_id = i, row_installed = None, row_enabled = True, row_title = t,
      row_compatibility = None, row_version = None, visible_enabled = False,
      visible_installed = False, sensitive_installed = False, row_type = ROW_TYPE_CATALOG\<rparr>"

definition repository_row :: "string \<Rightarrow> model_row" where
  "repository_row i =
     \<lparr>row_id = i, row_installed = None, row_enabled = True, row_title = i,
      row_compatibility = None, row_version = None, visible_enabled = False,
      visible_installed = False, sensitive_installed = False, row_type = ROW_TYPE_REPOSITORY\<rparr>"

definition foo_row :: "bool \<Rightarrow> bool \<Rightarrow> model_row" where
  "foo_row inst en =
     \<lparr>row_id = ''foo'', row_installed = Some inst, row_enabled = en, row_title = ''Foo'',
      row_compatibility = Some ''Yes'', row_version = Some ''1.0'', visible_enabled = True,
      visible_installed = True, sensitive_installed = True, row_type = ROW_TYPE_PLUGIN\<rparr>"


text \<open>The window after reconciliation when nothing is installed and nothing is loaded.\<close>

definition window_new :: window where
  "window_new =
     load_plugins \<lparr>loaded_plugins = [], enabled_plugins = []\<rparr> [] example_cm (blank_window [] [])"





text \<open>
  The collaborators' answers in the examples: the user confirms; the download fails for
  want of a connection, or succeeds and writes \<^verbatim>\<open>foo.py\<close>.
\<close>

definition answer_failing :: answers where
  "answer_failing = \<lparr>confirm = True, install_result = InstallConnectionError,
                      collection_version = Some ''1.0'', load_errors = []\<rparr>"

definition answer_ok :: answers where
  "answer_ok = \<lparr>confirm = True, install_result = InstallOk [[''foo.py'']],
                 collection_version = Some ''1.0'', load_errors = []\<rparr>"

text \<open>A source that names a catalog the store does not show.\<close>

definition src_XY :: install_src where
  "src_XY = \<lparr>catalog_id = ''X'', repo_id = ''Y'', plugin_id = ''foo''\<rparr>"

section \<open>Properties\<close>

subsection \<open>The example states, computed\<close>

lemma model_window_AB:
  "model (window_AB en) =
     [Node (catalog_row LOCAL_REPOSITORY_ID LOCAL_REPOSITORY_TITLE) [],
      Node (catalog_row ''A'' ''A'')
        [Node (repository_row ''B'') [Node (foo_row True (''foo'' \<in> set en)) []]],
      Node (catalog_row ''C'' ''C'')
        [Node (repository_row ''D'') [Node (foo_row False False) []]]]"
  by (simp add: window_AB_def load_plugins_def example_pm_def example_cm_def blank_window_def
        add_catalog_to_tree_def add_plugins_to_tree_def installed_get_def src_AB_def
        foo_class_def emit_def call_pm_def dict_keys_def leaf_def yes_no_def
        catalog_row_def repository_row_def foo_row_def Let_def load_failed_row_def)

lemma config_window_AB:
  "plugins_installed (window_AB en) = [(''foo'', Some src_AB)]"
  "plugins_enabled (window_AB en) = en"
  "files (window_AB en) = [[''foo.py'']]"
  "pm_calls (window_AB en) = [PmLoadAll]"
  "module_errors (window_AB en) = Map.empty"
  "ui (window_AB en) = [StatusBar ''Loading plugins...'', StatusBar ''Loading completed'']"
  by (simp_all add: window_AB_def load_plugins_def example_pm_def example_cm_def
        blank_window_def src_AB_def foo_class_def emit_def call_pm_def Let_def)



lemma get_foo_CD: "get_node (model (window_AB en)) [2, 0, 0] = Some (Node (foo_row False False) [])"
  by (simp add: model_window_AB)

lemma get_foo_AB:
  "get_node (model (window_AB en)) [1, 0, 0] = Some (Node (foo_row True (''foo'' \<in> set en)) [])"
  by (simp add: model_window_AB)

lemma model_window_new:
  "model window_new =
     [Node (catalog_row LOCAL_REPOSITORY_ID LOCAL_REPOSITORY_TITLE) [],
      Node (catalog_row ''A'' ''A'')
        [Node (repository_row ''B'') [Node (foo_row False False) []]],
      Node (catalog_row ''C'' ''C'')
        [Node (repository_row ''D'') [Node (foo_row False False) []]]]"
  by (simp add: window_new_def load_plugins_def example_cm_def blank_window_def
        add_catalog_to_tree_def add_plugins_to_tree_def installed_get_def
        emit_def call_pm_def dict_keys_def leaf_def yes_no_def
        catalog_row_def repository_row_def foo_row_def Let_def)

lemma config_window_new:
  "plugins_installed window_new = []"
  "plugins_enabled window_new = []"
  "ui window_new = [StatusBar ''Loading plugins...'', StatusBar ''Loading completed'']"
  by (simp_all add: window_new_def load_plugins_def example_cm_def
        blank_window_def emit_def call_pm_def Let_def)

subsection \<open>Tree paths\<close>

lemma get_node_update_node:
  "get_node (update_node f ns p) p =
     map_option (\<lambda>n. Node (f (row n)) (children n)) (get_node ns p)"
  by (induction f ns p rule: update_node.induct) auto

subsection \<open>Enabling\<close>

text \<open>
  Claim C5. An attempt to enable a loaded plugin (the enable toggle on a plugin row that
  is not shown as enabled) consults the module errors first: with an entry for the id
  the handler shows the error dialog and neither calls the registry nor touches the
  enabled list. Without one, an incompatible plugin gets the incompatibility dialog,
  again before the registry is called. Otherwise the registry is asked once: when it
  accepts, the id is appended to the enabled list; when it refuses, the list stays as
  it is and nothing is shown.
\<close>

theorem toggled_enable_order:
  assumes "get_node (model w) path = Some n"
    and "row_type (row n) = ROW_TYPE_PLUGIN"
    and "map_of (loaded_plugins pm) (row_id (row n)) = Some klass"
    and "\<not> row_enabled (row n)"
  shows "(module_errors w (row_id (row n)) \<noteq> None \<longrightarrow>
            pm_calls (snd (signal_renderer_toggled_enable pm accepted w path)) = pm_calls w
          \<and> plugins_enabled (snd (signal_renderer_toggled_enable pm accepted w path))
              = plugins_enabled w
          \<and> ui (snd (signal_renderer_toggled_enable pm accepted w path))
              = ui w @ [DialogError ''Can Not Enable Plugin''
                          ''Can not enable a plugin which failed to load.''])
       \<and> (module_errors w (row_id (row n)) = None \<and> \<not> is_compatible klass \<longrightarrow>
            pm_calls (snd (signal_renderer_toggled_enable pm accepted w path)) = pm_calls w
          \<and> plugins_enabled (snd (signal_renderer_toggled_enable pm accepted w path))
              = plugins_enabled w
          \<and> ui (snd (signal_renderer_toggled_enable pm accepted w path))
              = ui w @ [DialogError ''Incompatible Plugin'' ''This plugin is not compatible.''])
       \<and> (module_errors w (row_id (row n)) = None \<and> is_compatible klass \<and> accepted \<longrightarrow>
            pm_calls (snd (signal_renderer_toggled_enable pm accepted w path))
              = pm_calls w @ [PmEnable (row_id (row n))]
          \<and> plugins_enabled (snd (signal_renderer_toggled_enable pm accepted w path))
              = plugins_enabled w @ [row_id (row n)])
       \<and> (module_errors w (row_id (row n)) = None \<and> is_compatible klass \<and> \<not> accepted \<longrightarrow>
            pm_calls (snd (signal_renderer_toggled_enable pm accepted w path))
              = pm_calls w @ [PmEnable (row_id (row n))]
          \<and> plugins_enabled (snd (signal_renderer_toggled_enable pm accepted w path))
              = plugins_enabled w
          \<and> ui (snd (signal_renderer_toggled_enable pm accepted w path)) = ui w)
       \<and> fst (signal_renderer_toggled_enable pm accepted w path) = Returned ()
       \<and> plugins_installed (snd (signal_renderer_toggled_enable pm accepted w path))
           = plugins_installed w"
  using assms
  by (simp add: signal_renderer_toggled_enable_def emit_def call_pm_def set_model_item_def Let_def)

theorem toggled_enable_order_witness:
  "plugins_enabled (snd (signal_renderer_toggled_enable (example_pm []) True
       ((window_AB [])\<lparr>module_errors := [''foo'' \<mapsto> ''ImportError'']\<rparr>) [1, 0, 0])) = []
   \<and> pm_calls (snd (signal_renderer_toggled_enable (example_pm []) True
       ((window_AB [])\<lparr>module_errors := [''foo'' \<mapsto> ''ImportError'']\<rparr>) [1, 0, 0])) = [PmLoadAll]
   \<and> plugins_enabled (snd (signal_renderer_toggled_enable
       \<lparr>loaded_plugins = [(''foo'', foo_class\<lparr>is_compatible := False\<rparr>)], enabled_plugins = []\<rparr>
       True (window_AB []) [1, 0, 0])) = []
   \<and> plugins_enabled (snd (signal_renderer_toggled_enable (example_pm []) True
       (window_AB []) [1, 0, 0])) = [''foo'']
   \<and> plugins_enabled (snd (signal_renderer_toggled_enable (example_pm []) False
       (window_AB []) [1, 0, 0])) = []
   \<and> pm_calls (snd (signal_renderer_toggled_enable (example_pm []) False
       (window_AB []) [1, 0, 0])) = [PmLoadAll, PmEnable ''foo'']"
proof -
  let ?we = "(window_AB [])\<lparr>module_errors := [''foo'' \<mapsto> ''ImportError'']\<rparr>"
  let ?n = "Node (foo_row True False) []"
  let ?pmi = "\<lparr>loaded_plugins = [(''foo'', foo_class\<lparr>is_compatible := False\<rparr>)],
               enabled_plugins = []\<rparr>"
  have g: "get_node (model (window_AB [])) [1, 0, 0] = Some ?n"
    using get_foo_AB [of "[]"] by simp
  have ge: "get_node (model ?we) [1, 0, 0] = Some ?n"
    using g by simp
  have t: "row_type (row ?n) = ROW_TYPE_PLUGIN" and e: "\<not> row_enabled (row ?n)"
    by (simp_all add: foo_row_def)
  have l: "map_of (loaded_plugins (example_pm [])) (row_id (row ?n)) = Some foo_class"
    by (simp add: example_pm_def foo_row_def)
  have li: "map_of (loaded_plugins ?pmi) (row_id (row ?n)) = Some (foo_class\<lparr>is_compatible := False\<rparr>)"
    by (simp add: foo_row_def)
  show ?thesis
    using toggled_enable_order [OF ge t l e, of True]
      toggled_enable_order [OF g t li e, of True]
      toggled_enable_order [OF g t l e, of True]
      toggled_enable_order [OF g t l e, of False]
    by (simp add: foo_row_def foo_class_def config_window_AB)
qed

subsection \<open>Uninstalling\<close>

text \<open>
  Claim C6. When the plugin has neither form on disk (no \<^verbatim>\<open>__init__.py\<close> in a
  directory of its name, no file \<^verbatim>\<open><id>.py\<close>), \<^verbatim>\<open>_uninstall_plugin\<close> returns
  \<^verbatim>\<open>False\<close>, leaves \<^verbatim>\<open>config['plugins.installed']\<close> as it is and does not call the
  registry, so the plugin is not unloaded.
\<close>

theorem uninstall_plugin_not_on_disk:
  assumes "get_node (model w) path = Some n"
    and "[row_id (row n), ''__init__.py''] \<notin> set (files w)"
    and "[row_id (row n) @ ''.py''] \<notin> set (files w)"
  shows "fst (uninstall_plugin w path) = Returned False
       \<and> plugins_installed (snd (uninstall_plugin w path)) = plugins_installed w
       \<and> pm_calls (snd (uninstall_plugin w path)) = pm_calls w
       \<and> model (snd (uninstall_plugin w path)) = model w"
  using assms by (simp add: uninstall_plugin_def emit_def Let_def)

theorem uninstall_plugin_not_on_disk_witness:
  "fst (uninstall_plugin ((window_AB [])\<lparr>files := []\<rparr>) [1, 0, 0]) = Returned False
   \<and> plugins_installed (snd (uninstall_plugin ((window_AB [])\<lparr>files := []\<rparr>) [1, 0, 0]))
       = [(''foo'', Some src_AB)]
   \<and> pm_calls (snd (uninstall_plugin ((window_AB [])\<lparr>files := []\<rparr>) [1, 0, 0])) = [PmLoadAll]"
proof -
  let ?w = "(window_AB [])\<lparr>files := []\<rparr>"
  let ?n = "Node (foo_row True False) []"
  have g: "get_node (model ?w) [1, 0, 0] = Some ?n"
    using get_foo_AB [of "[]"] by simp
  have f1: "[row_id (row ?n), ''__init__.py''] \<notin> set (files ?w)"
    and f2: "[row_id (row ?n) @ ''.py''] \<notin> set (files ?w)"
    by simp_all
  show ?thesis
    using uninstall_plugin_not_on_disk [OF g f1 f2] by (simp add: config_window_AB)
qed

subsection \<open>Disabling\<close>

text \<open>
  Claim C7 says that disabling removes the id from the enabled list when it is there,
  and is a no-op that succeeds when it is not. The second half fails: for an id that is
  not in the list \<^verbatim>\<open>list.remove\<close> raises \<^verbatim>\<open>ValueError\<close>, after the registry has
  been told to disable the plugin.
\<close>

theorem disable_plugin_absent_raises:
  "''foo'' \<notin> set (plugins_enabled (window_AB []))
   \<and> fst (disable_plugin (window_AB []) [1, 0, 0]) = Raised ValueError
   \<and> pm_calls (snd (disable_plugin (window_AB []) [1, 0, 0])) = [PmLoadAll, PmDisable ''foo'']"
  using get_foo_AB [of "[]"]
  by (simp add: disable_plugin_def call_pm_def config_window_AB foo_row_def Let_def)

text \<open>
  Claim C7, amended. For the row at a path, \<^verbatim>\<open>_disable_plugin\<close> tells the registry
  to disable the plugin; when the id is in the enabled list it removes its first
  occurrence and returns, and the id is gone from a list that had no duplicates; when
  the id is not in the list it raises \<^verbatim>\<open>ValueError\<close> and the list is unchanged. The
  installation record is untouched either way.
\<close>

theorem disable_plugin_enabled_set:
  assumes "get_node (model w) path = Some n"
  shows "(row_id (row n) \<in> set (plugins_enabled w) \<longrightarrow>
            fst (disable_plugin w path) = Returned ()
          \<and> plugins_enabled (snd (disable_plugin w path))
              = remove1 (row_id (row n)) (plugins_enabled w)
          \<and> (distinct (plugins_enabled w) \<longrightarrow>
                row_id (row n) \<notin> set (plugins_enabled (snd (disable_plugin w path)))))
       \<and> (row_id (row n) \<notin> set (plugins_enabled w) \<longrightarrow>
            fst (disable_plugin w path) = Raised ValueError
          \<and> plugins_enabled (snd (disable_plugin w path)) = plugins_enabled w)
       \<and> pm_calls (snd (disable_plugin w path)) = pm_calls w @ [PmDisable (row_id (row n))]
       \<and> plugins_installed (snd (disable_plugin w path)) = plugins_installed w"
  using assms by (simp add: disable_plugin_def call_pm_def set_model_item_def Let_def)

theorem disable_plugin_enabled_set_witness:
  "fst (disable_plugin (window_AB [''foo'']) [1, 0, 0]) = Returned ()
   \<and> plugins_enabled (snd (disable_plugin (window_AB [''foo'']) [1, 0, 0])) = []
   \<and> ''foo'' \<notin> set (plugins_enabled (snd (disable_plugin (window_AB [''foo'']) [1, 0, 0])))
   \<and> fst (disable_plugin (window_AB [''bar'']) [1, 0, 0]) = Raised ValueError
   \<and> plugins_enabled (snd (disable_plugin (window_AB [''bar'']) [1, 0, 0])) = [''bar'']"
proof -
  have g: "get_node (model (window_AB [''foo''])) [1, 0, 0] = Some (Node (foo_row True True) [])"
    using get_foo_AB [of "[''foo'']"] by simp
  have h: "get_node (model (window_AB [''bar''])) [1, 0, 0] = Some (Node (foo_row True False) [])"
    using get_foo_AB [of "[''bar'']"] by simp
  show ?thesis
    using disable_plugin_enabled_set [OF g] disable_plugin_enabled_set [OF h]
    by (simp add: foo_row_def config_window_AB)
qed

subsection \<open>Reloading\<close>

text \<open>
  Claim C8. Reloading the plugin of a row unloads it and loads its module again. When
  the import raises, the error is recorded in the module errors under the plugin's id,
  the row's title becomes the id followed by \<^verbatim>\<open>(Reload Failed)\<close>, the registry is not
  asked to enable the plugin, and the enabled list is as before. When the import
  succeeds, the module error entry of the id is gone, and the registry is asked to
  enable the plugin exactly when it was enabled before the reload; the enabled list is
  as before.
\<close>

theorem reload_plugin_outcome:
  assumes "get_node (model w) tree_iter = Some n"
  shows "(load = LoadFailed error \<longrightarrow>
            fst (reload_plugin pm load w named_row tree_iter selected) = Returned ()
          \<and> module_errors (snd (reload_plugin pm load w named_row tree_iter selected))
               (row_id named_row) = Some error
          \<and> (case get_node (model (snd (reload_plugin pm load w named_row tree_iter selected)))
                    tree_iter of
                None \<Rightarrow> False
              | Some m \<Rightarrow> row_title (row m) = row_id named_row @ '' (Reload Failed)''
                           \<and> sublist ''Reload Failed'' (row_title (row m)))
          \<and> pm_calls (snd (reload_plugin pm load w named_row tree_iter selected))
               = pm_calls w @ [PmUnload (row_id named_row), PmLoad (row_id named_row)]
          \<and> plugins_enabled (snd (reload_plugin pm load w named_row tree_iter selected))
               = plugins_enabled w)
       \<and> (load = Loaded klass \<longrightarrow>
            fst (reload_plugin pm load w named_row tree_iter selected) = Returned ()
          \<and> module_errors (snd (reload_plugin pm load w named_row tree_iter selected))
               (row_id named_row) = None
          \<and> pm_calls (snd (reload_plugin pm load w named_row tree_iter selected))
               = pm_calls w @ [PmUnload (row_id named_row), PmLoad (row_id named_row)]
                   @ (if row_id named_row \<in> set (enabled_plugins pm)
                      then [PmEnable (row_id named_row)] else [])
          \<and> plugins_enabled (snd (reload_plugin pm load w named_row tree_iter selected))
               = plugins_enabled w)"
proof -
  have s: "sublist ''Reload Failed'' (row_id named_row @ '' (Reload Failed)'')"
    unfolding sublist_def
    by (rule exI[of _ "row_id named_row @ '' (''"], rule exI[of _ "'')''"]) simp
  show ?thesis
    using assms s
    by (simp add: reload_plugin_def emit_def call_pm_def set_model_item_def Let_def
          on_plugin_load_error_def get_node_update_node)
qed

theorem reload_plugin_outcome_witness:
  "module_errors (snd (reload_plugin (example_pm [''foo'']) (LoadFailed ''ImportError'')
       (window_AB [''foo'']) (foo_row True True) [1, 0, 0] None)) ''foo'' = Some ''ImportError''
   \<and> (case get_node (model (snd (reload_plugin (example_pm [''foo''])
               (LoadFailed ''ImportError'') (window_AB [''foo'']) (foo_row True True)
               [1, 0, 0] None))) [1, 0, 0] of
         None \<Rightarrow> False
       | Some m \<Rightarrow> row_title (row m) = ''foo (Reload Failed)'')
   \<and> pm_calls (snd (reload_plugin (example_pm [''foo'']) (LoadFailed ''ImportError'')
       (window_AB [''foo'']) (foo_row True True) [1, 0, 0] None))
       = [PmLoadAll, PmUnload ''foo'', PmLoad ''foo'']
   \<and> plugins_enabled (snd (reload_plugin (example_pm [''foo'']) (LoadFailed ''ImportError'')
       (window_AB [''foo'']) (foo_row True True) [1, 0, 0] None)) = [''foo'']
   \<and> pm_calls (snd (reload_plugin (example_pm [''foo'']) (Loaded foo_class)
       ((window_AB [''foo''])\<lparr>module_errors := [''foo'' \<mapsto> ''ImportError'']\<rparr>)
       (foo_row True True) [1, 0, 0] None))
       = [PmLoadAll, PmUnload ''foo'', PmLoad ''foo'', PmEnable ''foo'']
   \<and> module_errors (snd (reload_plugin (example_pm [''foo'']) (Loaded foo_class)
       ((window_AB [''foo''])\<lparr>module_errors := [''foo'' \<mapsto> ''ImportError'']\<rparr>)
       (foo_row True True) [1, 0, 0] None)) ''foo'' = None"
proof -
  let ?n = "Node (foo_row True True) []"
  let ?we = "(window_AB [''foo''])\<lparr>module_errors := [''foo'' \<mapsto> ''ImportError'']\<rparr>"
  have g: "get_node (model (window_AB [''foo''])) [1, 0, 0] = Some ?n"
    using get_foo_AB [of "[''foo'']"] by simp
  have ge: "get_node (model ?we) [1, 0, 0] = Some ?n"
    using g by simp
  show ?thesis
    using reload_plugin_outcome [OF g, of "LoadFailed ''ImportError''" "''ImportError''"
        "example_pm [''foo'']" "foo_row True True" None foo_class]
      reload_plugin_outcome [OF ge, of "Loaded foo_class" "''ImportError''"
        "example_pm [''foo'']" "foo_row True True" None foo_class]
    by (auto simp add: foo_row_def config_window_AB example_pm_def
          simp del: get_node.simps split: option.splits)
qed

subsection \<open>Installing\<close>

text \<open>
  Claim C9. The install toggle on a row that is not installed, for a plugin with no
  entry in \<^verbatim>\<open>config['plugins.installed']\<close>, when the download raises a connection
  error: the handler returns, the dialog that names the internet connection has been
  shown, and the configuration still has no entry for the plugin.
\<close>

theorem install_connection_error:
  assumes "get_node (model w) path = Some n"
    and "get_plugin_model_parents (model w) path = Returned (repo_model, catalog_model)"
    and "\<not> truthy (row_installed (row n))"
    and "map_of (plugins_installed w) (row_id (row n)) = None"
    and "install_result a = InstallConnectionError"
  shows "fst (signal_renderer_toggled_install a w path) = Returned ()
       \<and> DialogError ''Failed To Install''
            (''Failed to download '' @ row_id (row n) @ '' plugin, check your internet connection.'')
           \<in> set (ui (snd (signal_renderer_toggled_install a w path)))
       \<and> plugins_installed (snd (signal_renderer_toggled_install a w path)) = plugins_installed w
       \<and> map_of (plugins_installed (snd (signal_renderer_toggled_install a w path)))
            (row_id (row n)) = None"
  using assms
  by (simp add: signal_renderer_toggled_install_def toggled_install_new_def emit_def Let_def)

theorem install_connection_error_witness:
  "fst (signal_renderer_toggled_install
          \<lparr>confirm = True, install_result = InstallConnectionError,
           collection_version = Some ''1.0'', load_errors = []\<rparr> window_new [1, 0, 0])
     = Returned ()
   \<and> DialogError ''Failed To Install''
        ''Failed to download foo plugin, check your internet connection.''
       \<in> set (ui (snd (signal_renderer_toggled_install
          \<lparr>confirm = True, install_result = InstallConnectionError,
           collection_version = Some ''1.0'', load_errors = []\<rparr> window_new [1, 0, 0])))
   \<and> plugins_installed (snd (signal_renderer_toggled_install
          \<lparr>confirm = True, install_result = InstallConnectionError,
           collection_version = Some ''1.0'', load_errors = []\<rparr> window_new [1, 0, 0])) = []"
proof -
  let ?a = "\<lparr>confirm = True, install_result = InstallConnectionError,
             collection_version = Some ''1.0'', load_errors = []\<rparr>"
  let ?n = "Node (foo_row False False) []"
  have g: "get_node (model window_new) [1, 0, 0] = Some ?n"
    by (simp add: model_window_new)
  have p: "get_plugin_model_parents (model window_new) [1, 0, 0]
             = Returned (repository_row ''B'', catalog_row ''A'' ''A'')"
    by (simp add: model_window_new get_plugin_model_parents_def parent_def)
  have i: "\<not> truthy (row_installed (row ?n))"
    by (simp add: truthy_def foo_row_def)
  have m: "map_of (plugins_installed window_new) (row_id (row ?n)) = None"
    by (simp add: config_window_new)
  have r: "install_result ?a = InstallConnectionError"
    by simp
  show ?thesis
    using install_connection_error [OF g p i m r]
    by (simp add: foo_row_def config_window_new)
qed

subsection \<open>Reconciliation\<close>

lemma local_rows_map_of:
  "map_of (fst (local_rows pm ps inst)) k =
     (if k \<in> fst ` set ps \<and> (\<forall>src. map_of inst k \<noteq> Some (Some src)) then Some None
      else map_of inst k)"
proof (induction ps arbitrary: inst)
  case Nil
  then show ?case by simp
next
  case (Cons p ps)
  obtain name plugin where p: "p = (name, plugin)" by (cases p)
  show ?case
  proof (cases "\<exists>src. map_of inst name = Some (Some src)")
    case True
    then show ?thesis using Cons.IH [of inst] p by (force simp add: image_iff)
  next
    case False
    then have "local_rows pm (p # ps) inst =
        (fst (local_rows pm ps (AList.update name None inst)),
         \<lparr>row_id = plugin_name plugin, row_installed = Some True,
          row_enabled = (plugin_name plugin \<in> set (enabled_plugins pm)),
          row_title = plugin_title plugin,
          row_compatibility = Some (yes_no (is_compatible plugin)),
          row_version = Some (plugin_version plugin), visible_enabled = True,
          visible_installed = True, sensitive_installed = False,
          row_type = ROW_TYPE_PLUGIN\<rparr> # snd (local_rows pm ps (AList.update name None inst)))"
      using p by (auto split: option.splits prod.splits)
    then show ?thesis
      using Cons.IH [of "AList.update name None inst"] p False
      by (force simp add: update_conv' image_iff)
  qed
qed


lemma plugins_installed_load_plugins:
  "plugins_installed (load_plugins pm errors cm w)
     = fst (local_rows pm (loaded_plugins pm) (plugins_installed w))"
proof -
  have f: "plugins_installed (fold (\<lambda>(name, error). on_plugin_load_error name error) es v)
             = plugins_installed v" for es v
    by (induction es arbitrary: v) (auto simp add: on_plugin_load_error_def)
  show ?thesis
    by (simp add: load_plugins_def Let_def emit_def call_pm_def f split: prod.splits)
qed

text \<open>
  Claim C10. \<^verbatim>\<open>_load_plugins\<close> writes the configuration: after it, every plugin the
  registry has loaded is a key of \<^verbatim>\<open>config['plugins.installed']\<close>. A loaded plugin
  whose entry was missing or \<^verbatim>\<open>None\<close> has the entry \<^verbatim>\<open>None\<close>, and one whose entry
  was a source keeps it.
\<close>

theorem load_plugins_records_loaded:
  assumes "name \<in> fst ` set (loaded_plugins pm)"
  shows "map_of (plugins_installed (load_plugins pm errors cm w)) name \<noteq> None
       \<and> name \<in> fst ` set (plugins_installed (load_plugins pm errors cm w))
       \<and> ((\<forall>src. map_of (plugins_installed w) name \<noteq> Some (Some src)) \<longrightarrow>
            map_of (plugins_installed (load_plugins pm errors cm w)) name = Some None)
       \<and> (\<forall>src. map_of (plugins_installed w) name = Some (Some src) \<longrightarrow>
            map_of (plugins_installed (load_plugins pm errors cm w)) name = Some (Some src))"
proof -
  have m: "map_of (plugins_installed (load_plugins pm errors cm w)) name =
      (if \<forall>src. map_of (plugins_installed w) name \<noteq> Some (Some src) then Some None
       else map_of (plugins_installed w) name)"
    using assms by (simp add: plugins_installed_load_plugins local_rows_map_of)
  then have n: "map_of (plugins_installed (load_plugins pm errors cm w)) name \<noteq> None"
    by auto
  then have "name \<in> fst ` set (plugins_installed (load_plugins pm errors cm w))"
    by (simp add: map_of_eq_None_iff)
  with m n show ?thesis by auto
qed

theorem load_plugins_records_loaded_witness:
  "map_of (plugins_installed (blank_window [] [])) ''foo'' = None
   \<and> map_of (plugins_installed (load_plugins (example_pm []) [] example_cm (blank_window [] [])))
       ''foo'' = Some None
   \<and> map_of (plugins_installed (window_AB [])) ''foo'' = Some (Some src_AB)"
proof -
  have l: "''foo'' \<in> fst ` set (loaded_plugins (example_pm []))"
    by (simp add: example_pm_def)
  show ?thesis
    using load_plugins_records_loaded [OF l, of "[]" example_cm "blank_window [] []"]
      load_plugins_records_loaded [OF l, of "[]" example_cm "blank_window [(''foo'', Some src_AB)] []"]
    by (simp add: blank_window_def window_AB_def)
qed











subsection \<open>The catalog cache\<close>







subsection \<open>What the handlers do to the configuration\<close>

lemmas handler_defs =
  signal_renderer_toggled_install_def toggled_install_new_def toggled_uninstall_def
  remove_matching_plugin_def find_matching_plugin_def find_repo_model_def
  disable_plugin_def uninstall_plugin_def get_plugin_model_parents_def parent_def
  emit_def call_pm_def set_model_item_def on_plugin_load_error_def truthy_def rmtree_def

lemmas example_row_defs = catalog_row_def repository_row_def foo_row_def



lemma config_emit [simp]:
  "plugins_installed (emit e w) = plugins_installed w"
  "plugins_enabled (emit e w) = plugins_enabled w"
  "model (emit e w) = model w"
  "files (emit e w) = files w"
  by (simp_all add: emit_def)

lemma config_call_pm [simp]:
  "plugins_installed (call_pm c w) = plugins_installed w"
  "plugins_enabled (call_pm c w) = plugins_enabled w"
  "model (call_pm c w) = model w"
  "files (call_pm c w) = files w"
  by (simp_all add: call_pm_def)

lemma config_set_model_item [simp]:
  "plugins_installed (set_model_item p f w) = plugins_installed w"
  "plugins_enabled (set_model_item p f w) = plugins_enabled w"
  "files (set_model_item p f w) = files w"
  by (simp_all add: set_model_item_def)

lemma config_load_errors [simp]:
  "plugins_installed (fold (\<lambda>(name, error). on_plugin_load_error name error) es w)
     = plugins_installed w"
  "plugins_enabled (fold (\<lambda>(name, error). on_plugin_load_error name error) es w)
     = plugins_enabled w"
  by (induction es arbitrary: w) (auto simp add: on_plugin_load_error_def)













lemma reload_plugin_config:
  "config_kept w (snd (reload_plugin pm load w named_row tree_iter selected))"
  by (simp add: reload_plugin_def Let_def config_kept_def on_plugin_load_error_def
        split: load_outcome.splits)


subsection \<open>Failed transitions\<close>

text \<open>
  Claim C1 says that a transition that fails leaves the installation record and the
  enabled list as they were, the replacement of an installation included. The
  replacement removes the installed copy before it downloads the new one, and nothing
  puts it back: here \<open>foo\<close>, installed from \<open>A\<close>/\<open>B\<close> and enabled, is replaced from
  \<open>C\<close>/\<open>D\<close>, the download fails, the error dialog is shown, and \<open>foo\<close> is left with
  no installation record and no longer enabled.
\<close>

theorem replace_failed_download_loses_record:
  "plugins_installed (window_AB [''foo'']) = [(''foo'', Some src_AB)]
   \<and> plugins_enabled (window_AB [''foo'']) = [''foo'']
   \<and> fst (signal_renderer_toggled_install answer_failing (window_AB [''foo'']) [2, 0, 0])
       = Returned ()
   \<and> DialogError ''Failed To Install''
        ''Failed to download foo plugin, check your internet connection.''
       \<in> set (ui (snd (signal_renderer_toggled_install answer_failing
                          (window_AB [''foo'']) [2, 0, 0])))
   \<and> plugins_installed (snd (signal_renderer_toggled_install answer_failing
                          (window_AB [''foo'']) [2, 0, 0])) = []
   \<and> plugins_enabled (snd (signal_renderer_toggled_install answer_failing
                          (window_AB [''foo'']) [2, 0, 0])) = []"
  by (simp add: handler_defs example_row_defs model_window_AB config_window_AB answer_failing_def
        src_AB_def Let_def)

text \<open>
  Claim C1, amended. A transition that fails before anything was disabled or removed
  leaves the installation record and the enabled list as they were: an enable that is
  rejected for a load error or an incompatibility or that the registry refuses; a
  disable of a plugin that is not in the enabled list; an uninstall of a row that is
  not shown as enabled when the plugin is not on disk; an install with no other
  installation to replace whose download or installation raises; a replacement that
  the user declines or whose installed row is not found; and a reload, whatever its
  outcome.
\<close>

theorem failed_transition_keeps_config:
  assumes "get_node (model w) path = Some n"
  shows "(\<not> row_enabled (row n)
          \<and> (module_errors w (row_id (row n)) \<noteq> None
             \<or> (\<forall>klass. map_of (loaded_plugins pm) (row_id (row n)) = Some klass
                   \<longrightarrow> \<not> is_compatible klass)
             \<or> \<not> accepted)
          \<longrightarrow> config_kept w (snd (signal_renderer_toggled_enable pm accepted w path)))
       \<and> (row_enabled (row n) \<and> row_id (row n) \<notin> set (plugins_enabled w)
          \<longrightarrow> config_kept w (snd (signal_renderer_toggled_enable pm accepted w path)))
       \<and> (truthy (row_installed (row n)) \<and> \<not> row_enabled (row n)
          \<and> [row_id (row n), ''__init__.py''] \<notin> set (files w)
          \<and> [row_id (row n) @ ''.py''] \<notin> set (files w)
          \<longrightarrow> config_kept w (snd (signal_renderer_toggled_install a w path)))
       \<and> (\<not> truthy (row_installed (row n))
          \<and> get_plugin_model_parents (model w) path = Returned (repo_model, catalog_model)
          \<and> (map_of (plugins_installed w) (row_id (row n)) = None
             \<or> map_of (plugins_installed w) (row_id (row n))
                 = Some (Some \<lparr>catalog_id = row_id catalog_model, repo_id = row_id repo_model,
                               plugin_id = row_id (row n)\<rparr>))
          \<and> (install_result a = InstallConnectionError \<or> install_result a = InstallException)
          \<longrightarrow> config_kept w (snd (signal_renderer_toggled_install a w path)))
       \<and> (\<not> truthy (row_installed (row n))
          \<and> get_plugin_model_parents (model w) path = Returned (repo_model, catalog_model)
          \<and> map_of (plugins_installed w) (row_id (row n)) = Some src
          \<and> src \<noteq> Some \<lparr>catalog_id = row_id catalog_model, repo_id = row_id repo_model,
                          plugin_id = row_id (row n)\<rparr>
          \<and> (\<not> confirm a \<or> find_matching_plugin (model w) (row_id (row n)) src = None)
          \<longrightarrow> config_kept w (snd (signal_renderer_toggled_install a w path)))
       \<and> config_kept w (snd (reload_plugin pm load w named_row path selected))"
proof (intro conjI impI)
  assume "\<not> row_enabled (row n)
          \<and> (module_errors w (row_id (row n)) \<noteq> None
             \<or> (\<forall>klass. map_of (loaded_plugins pm) (row_id (row n)) = Some klass
                   \<longrightarrow> \<not> is_compatible klass)
             \<or> \<not> accepted)"
  then show "config_kept w (snd (signal_renderer_toggled_enable pm accepted w path))"
    using assms
    by (auto simp add: signal_renderer_toggled_enable_def Let_def config_kept_def
          split: option.splits)
next
  assume "row_enabled (row n) \<and> row_id (row n) \<notin> set (plugins_enabled w)"
  then show "config_kept w (snd (signal_renderer_toggled_enable pm accepted w path))"
    using assms
    by (auto simp add: signal_renderer_toggled_enable_def disable_plugin_def Let_def
          config_kept_def split: option.splits)
next
  assume "truthy (row_installed (row n)) \<and> \<not> row_enabled (row n)
          \<and> [row_id (row n), ''__init__.py''] \<notin> set (files w)
          \<and> [row_id (row n) @ ''.py''] \<notin> set (files w)"
  then show "config_kept w (snd (signal_renderer_toggled_install a w path))"
    using assms
    by (simp add: signal_renderer_toggled_install_def toggled_uninstall_def
          uninstall_plugin_def Let_def config_kept_def split: result.splits prod.splits)
next
  assume "\<not> truthy (row_installed (row n))
          \<and> get_plugin_model_parents (model w) path = Returned (repo_model, catalog_model)
          \<and> (map_of (plugins_installed w) (row_id (row n)) = None
             \<or> map_of (plugins_installed w) (row_id (row n))
                 = Some (Some \<lparr>catalog_id = row_id catalog_model, repo_id = row_id repo_model,
                               plugin_id = row_id (row n)\<rparr>))
          \<and> (install_result a = InstallConnectionError \<or> install_result a = InstallException)"
  then show "config_kept w (snd (signal_renderer_toggled_install a w path))"
    using assms
    by (auto simp add: signal_renderer_toggled_install_def toggled_install_new_def
          Let_def config_kept_def)
next
  assume c: "\<not> truthy (row_installed (row n))
          \<and> get_plugin_model_parents (model w) path = Returned (repo_model, catalog_model)
          \<and> map_of (plugins_installed w) (row_id (row n)) = Some src
          \<and> src \<noteq> Some \<lparr>catalog_id = row_id catalog_model, repo_id = row_id repo_model,
                          plugin_id = row_id (row n)\<rparr>
          \<and> (\<not> confirm a \<or> find_matching_plugin (model w) (row_id (row n)) src = None)"
  show "config_kept w (snd (signal_renderer_toggled_install a w path))"
  proof (cases "confirm a")
    case False
    then show ?thesis
      using assms c
      by (simp add: signal_renderer_toggled_install_def Let_def config_kept_def)
  next
    case True
    then show ?thesis
      using assms c
      by (simp add: signal_renderer_toggled_install_def remove_matching_plugin_def
            Let_def config_kept_def)
  qed
next
  show "config_kept w (snd (reload_plugin pm load w named_row path selected))"
    by (rule reload_plugin_config)
qed

theorem failed_transition_keeps_config_witness:
  "config_kept (window_AB [])
     (snd (signal_renderer_toggled_enable (example_pm []) False (window_AB []) [1, 0, 0]))
   \<and> config_kept ((window_AB [''foo''])\<lparr>plugins_enabled := []\<rparr>)
       (snd (signal_renderer_toggled_enable (example_pm []) True
               ((window_AB [''foo''])\<lparr>plugins_enabled := []\<rparr>) [1, 0, 0]))
   \<and> config_kept ((window_AB [])\<lparr>files := []\<rparr>)
       (snd (signal_renderer_toggled_install answer_ok ((window_AB [])\<lparr>files := []\<rparr>) [1, 0, 0]))
   \<and> config_kept window_new
       (snd (signal_renderer_toggled_install answer_failing window_new [1, 0, 0]))
   \<and> config_kept (window_AB [''foo''])
       (snd (signal_renderer_toggled_install (answer_ok\<lparr>confirm := False\<rparr>)
               (window_AB [''foo'']) [2, 0, 0]))
   \<and> config_kept ((window_AB [])\<lparr>plugins_installed := [(''foo'', Some src_XY)]\<rparr>)
       (snd (signal_renderer_toggled_install answer_ok
               ((window_AB [])\<lparr>plugins_installed := [(''foo'', Some src_XY)]\<rparr>) [2, 0, 0]))
   \<and> config_kept (window_AB [''foo''])
       (snd (reload_plugin (example_pm [''foo'']) (LoadFailed ''ImportError'')
               (window_AB [''foo'']) (foo_row True True) [1, 0, 0] None))"
proof -
  let ?nf = "Node (foo_row True False) []"
  let ?nn = "Node (foo_row False False) []"
  let ?wd = "(window_AB [])\<lparr>files := []\<rparr>"
  let ?wx = "(window_AB [])\<lparr>plugins_installed := [(''foo'', Some src_XY)]\<rparr>"
  have g: "get_node (model (window_AB [])) [1, 0, 0] = Some ?nf"
    using get_foo_AB [of "[]"] by simp
  have p: "get_plugin_model_parents (model (window_AB en)) [1, 0, 0]
             = Returned (repository_row ''B'', catalog_row ''A'' ''A'')" for en
    by (simp add: model_window_AB get_plugin_model_parents_def parent_def)
  have gd: "get_node (model ?wd) [1, 0, 0] = Some ?nf"
    using g by simp
  have pd: "get_plugin_model_parents (model ?wd) [1, 0, 0]
             = Returned (repository_row ''B'', catalog_row ''A'' ''A'')"
    using p [of "[]"] by simp
  have gn: "get_node (model window_new) [1, 0, 0] = Some ?nn"
    by (simp add: model_window_new)
  have pn: "get_plugin_model_parents (model window_new) [1, 0, 0]
             = Returned (repository_row ''B'', catalog_row ''A'' ''A'')"
    by (simp add: model_window_new get_plugin_model_parents_def parent_def)
  have g2: "get_node (model (window_AB en)) [2, 0, 0] = Some ?nn" for en
    by (rule get_foo_CD)
  have p2: "get_plugin_model_parents (model (window_AB en)) [2, 0, 0]
             = Returned (repository_row ''D'', catalog_row ''C'' ''C'')" for en
    by (simp add: model_window_AB get_plugin_model_parents_def parent_def)
  have gx: "get_node (model ?wx) [2, 0, 0] = Some ?nn"
    using g2 [of "[]"] by simp
  have px: "get_plugin_model_parents (model ?wx) [2, 0, 0]
             = Returned (repository_row ''D'', catalog_row ''C'' ''C'')"
    using p2 [of "[]"] by simp
  have fx: "find_matching_plugin (model ?wx) ''foo'' (Some src_XY) = None"
    by (simp add: find_matching_plugin_def find_repo_model_def model_window_AB
          example_row_defs src_XY_def)
  have g1: "get_node (model (window_AB [''foo''])) [1, 0, 0] = Some (Node (foo_row True True) [])"
    using get_foo_AB [of "[''foo'']"] by simp
  let ?ws = "(window_AB [''foo''])\<lparr>plugins_enabled := []\<rparr>"
  have gs: "get_node (model ?ws) [1, 0, 0] = Some (Node (foo_row True True) [])"
    using g1 by simp
  note e = failed_transition_keeps_config [OF g, where pm = "example_pm []" and accepted = False]
  note d = failed_transition_keeps_config [OF gs, where pm = "example_pm []" and accepted = True]
  note u = failed_transition_keeps_config [OF gd, where a = answer_ok]
  note i = failed_transition_keeps_config [OF gn, where a = answer_failing
      and repo_model = "repository_row ''B''" and catalog_model = "catalog_row ''A'' ''A''"]
  note r1 = failed_transition_keeps_config [OF g2 [of "[''foo'']"],
      where a = "answer_ok\<lparr>confirm := False\<rparr>" and src = "Some src_AB"
      and repo_model = "repository_row ''D''" and catalog_model = "catalog_row ''C'' ''C''"]
  note r2 = failed_transition_keeps_config [OF gx, where a = answer_ok and src = "Some src_XY"
      and repo_model = "repository_row ''D''" and catalog_model = "catalog_row ''C'' ''C''"]
  note l = failed_transition_keeps_config [OF g1, where pm = "example_pm [''foo'']"
      and load = "LoadFailed ''ImportError''" and named_row = "foo_row True True"
      and selected = None]
  show ?thesis
    using e d u i r1 r2 l fx pn p2 [of "[''foo'']"] px
    by (simp add: foo_row_def truthy_def config_window_AB config_window_new answer_ok_def
          answer_failing_def src_AB_def src_XY_def repository_row_def catalog_row_def)
qed

subsection \<open>The invariant of the enabled list\<close>






end
